theory Spec2Isabelle
  imports Complex_Main
begin

section \<open>Python values and the library functions the script calls\<close>

text \<open>Exceptions are values: a function that can raise returns \<open>error + 'a\<close>.\<close>

datatype error =
  ValueError | TypeError | KeyError | IndexError | ZeroDivisionError
  | OverflowError | OSError | SystemExit

text \<open>
  A record of an archive is what \<open>json.loads\<close> returns: a dictionary from keys to JSON
  values. Python floats are represented by the real number they stand for; the binary
  rounding of floating-point arithmetic is outside the model.
\<close>

datatype json =
  JNull | JBool bool | JInt int | JFloat real | JStr string
  | JArr "json list" | JObj "(string \<times> json) list"

type_synonym item = "string \<rightharpoonup> json"

text \<open>\<open>item.get(key, dflt)\<close>\<close>

definition dict_get :: "item \<Rightarrow> string \<Rightarrow> json \<Rightarrow> json" where
  "dict_get item key dflt = (case item key of None \<Rightarrow> dflt | Some v \<Rightarrow> v)"

text \<open>
  Built-in and standard-library functions whose result depends on the platform, on
  floating-point formatting or on Unicode tables are parameters of the model, so that
  every theorem below holds for whatever they compute.
\<close>

record pylib =
  int_of_str :: "string \<Rightarrow> int option"
    \<comment> \<open>\<open>int(s)\<close> for a string; \<open>None\<close> where it raises \<open>ValueError\<close>\<close>
  utc_error :: "int \<Rightarrow> error option"
    \<comment> \<open>the exception \<open>datetime.utcfromtimestamp(t)\<close> raises, \<open>None\<close> when it returns\<close>
  strftime_ymd :: "int \<Rightarrow> string"
    \<comment> \<open>\<open>datetime.utcfromtimestamp(t).strftime('%Y-%m-%d')\<close>\<close>
  py_str :: "json \<Rightarrow> string"
    \<comment> \<open>how an f-string renders a value\<close>
  fmt_2f :: "real \<Rightarrow> string"
    \<comment> \<open>\<open>f"{x:.2f}"\<close>\<close>
  round2 :: "real \<Rightarrow> real"
    \<comment> \<open>\<open>round(x, 2)\<close> of a float\<close>
  json_dumps :: "json \<Rightarrow> string"
    \<comment> \<open>the text \<open>json.dump(v, f, indent=2)\<close> writes\<close>

text \<open>\<open>int(v)\<close>: truncation for a float, parsing for a string, \<open>TypeError\<close> otherwise.\<close>

definition py_int :: "pylib \<Rightarrow> json \<Rightarrow> error + int" where
  "py_int lib v =
     (case v of
        JInt n \<Rightarrow> Inr n
      | JBool b \<Rightarrow> Inr (if b then 1 else 0)
      | JFloat r \<Rightarrow> Inr (if 0 \<le> r then \<lfloor>r\<rfloor> else \<lceil>r\<rceil>)
      | JStr s \<Rightarrow> (case int_of_str lib s of None \<Rightarrow> Inl ValueError | Some n \<Rightarrow> Inr n)
      | JNull \<Rightarrow> Inl TypeError
      | JArr _ \<Rightarrow> Inl TypeError
      | JObj _ \<Rightarrow> Inl TypeError)"

text \<open>
  A naive UTC \<open>datetime\<close> built from an integer timestamp is represented by that
  timestamp: the order of two such values is the order of the timestamps.
\<close>

definition utcfromtimestamp :: "pylib \<Rightarrow> int \<Rightarrow> error + int" where
  "utcfromtimestamp lib t = (case utc_error lib t of Some e \<Rightarrow> Inl e | None \<Rightarrow> Inr t)"

text \<open>Truth value of an object in a condition.\<close>

definition truthy :: "json \<Rightarrow> bool" where
  "truthy v =
     (case v of
        JNull \<Rightarrow> False
      | JBool b \<Rightarrow> b
      | JInt n \<Rightarrow> n \<noteq> 0
      | JFloat r \<Rightarrow> r \<noteq> 0
      | JStr s \<Rightarrow> s \<noteq> []
      | JArr xs \<Rightarrow> xs \<noteq> []
      | JObj kvs \<Rightarrow> kvs \<noteq> [])"

text \<open>
  Equality and hashing of the values a set can hold: numbers and booleans compare by
  value (\<open>1 == True == 1.0\<close>), everything else structurally. Lists and dictionaries
  are unhashable.
\<close>

definition num_of :: "json \<Rightarrow> real option" where
  "num_of v =
     (case v of
        JBool b \<Rightarrow> Some (if b then 1 else 0)
      | JInt n \<Rightarrow> Some (real_of_int n)
      | JFloat r \<Rightarrow> Some r
      | _ \<Rightarrow> None)"

definition py_eq :: "json \<Rightarrow> json \<Rightarrow> bool" where
  "py_eq a b =
     (case (num_of a, num_of b) of
        (Some x, Some y) \<Rightarrow> x = y
      | (None, None) \<Rightarrow> a = b
      | _ \<Rightarrow> False)"

definition hashable :: "json \<Rightarrow> bool" where
  "hashable v = (case v of JArr _ \<Rightarrow> False | JObj _ \<Rightarrow> False | _ \<Rightarrow> True)"

text \<open>
  \<open>s.add(v)\<close> on a set kept as a list of pairwise unequal values in insertion order
  (the order in which Python iterates a set is unspecified).
\<close>

definition set_add :: "json list \<Rightarrow> json \<Rightarrow> error + json list" where
  "set_add s v =
     (if \<not> hashable v then Inl TypeError
      else if list_ex (\<lambda>x. py_eq x v) s then Inr s
      else Inr (s @ [v]))"

text \<open>\<open>str(n)\<close> for an integer.\<close>

fun str_nat :: "nat \<Rightarrow> string" where
  "str_nat n =
     (if n < 10 then [''0123456789'' ! n]
      else str_nat (n div 10) @ [''0123456789'' ! (n mod 10)])"

declare str_nat.simps [simp del]

definition str_int :: "int \<Rightarrow> string" where
  "str_int i = (if i < 0 then CHR ''-'' # str_nat (nat (- i)) else str_nat (nat i))"

definition nl :: string where
  "nl = [CHR 0x0A]"

text \<open>\<open>sep.join(parts)\<close>\<close>

fun join :: "string \<Rightarrow> string list \<Rightarrow> string" where
  "join sep [] = []"
| "join sep [x] = x"
| "join sep (x # y # ys) = x @ sep @ join sep (y # ys)"

section \<open>A reference instance of the library functions\<close>

text \<open>
  The instance below is used to run the model on concrete inputs. It follows CPython on
  printable ASCII text, integers, \<open>None\<close> and booleans; floats are printed from the real
  number they stand for (integral values as \<open>n.0\<close>, other values with two decimals),
  and a timestamp outside the years 1 to 9999 raises \<open>ValueError\<close>.
\<close>

definition is_space :: "char \<Rightarrow> bool" where
  "is_space c = (c \<in> set [CHR '' '', CHR 0x09, CHR 0x0A, CHR 0x0B, CHR 0x0C, CHR 0x0D])"

definition strip :: "string \<Rightarrow> string" where
  "strip s = rev (dropWhile is_space (rev (dropWhile is_space s)))"

definition digit_val :: "char \<Rightarrow> nat option" where
  "digit_val c =
     (let n = (of_char c :: nat) in if 48 \<le> n \<and> n \<le> 57 then Some (n - 48) else None)"

text \<open>Decimal digits, single underscores allowed between two digits.\<close>

fun parse_digits :: "string \<Rightarrow> nat \<Rightarrow> bool \<Rightarrow> nat option" where
  "parse_digits [] acc after_digit = (if after_digit then Some acc else None)"
| "parse_digits (c # cs) acc after_digit =
     (if c = CHR ''_'' then
        (if after_digit \<and> cs \<noteq> [] then parse_digits cs acc False else None)
      else (case digit_val c of
              None \<Rightarrow> None
            | Some d \<Rightarrow> parse_digits cs (10 * acc + d) True))"

definition ref_int_of_str :: "string \<Rightarrow> int option" where
  "ref_int_of_str s =
     (case strip s of
        [] \<Rightarrow> None
      | c # cs \<Rightarrow>
          if c = CHR ''-'' then map_option (\<lambda>n. - int n) (parse_digits cs 0 False)
          else if c = CHR ''+'' then map_option int (parse_digits cs 0 False)
          else map_option int (parse_digits (c # cs) 0 False))"

definition ref_utc_error :: "int \<Rightarrow> error option" where
  "ref_utc_error t =
     (if - 62135596800 \<le> t \<and> t \<le> 253402300799 then None else Some ValueError)"

definition pad2 :: "nat \<Rightarrow> string" where
  "pad2 n = (if n < 10 then CHR ''0'' # str_nat n else str_nat n)"

definition pad4 :: "nat \<Rightarrow> string" where
  "pad4 n = replicate (4 - length (str_nat n)) (CHR ''0'') @ str_nat n"

text \<open>The proleptic Gregorian date of a timestamp, from the day number since 1970-01-01.\<close>

definition ref_strftime_ymd :: "int \<Rightarrow> string" where
  "ref_strftime_ymd t =
     (let z = t div 86400 + 719468;
          era = z div 146097;
          doe = z - era * 146097;
          yoe = (doe - doe div 1460 + doe div 36524 - doe div 146096) div 365;
          doy = doe - (365 * yoe + yoe div 4 - yoe div 100);
          mp = (5 * doy + 2) div 153;
          d = doy - (153 * mp + 2) div 5 + 1;
          m = (if mp < 10 then mp + 3 else mp - 9);
          y = yoe + era * 400 + (if m \<le> 2 then 1 else 0)
      in pad4 (nat y) @ ''-'' @ pad2 (nat m) @ ''-'' @ pad2 (nat d))"

definition round_half_even :: "real \<Rightarrow> int" where
  "round_half_even x =
     (let f = \<lfloor>x\<rfloor>; d = x - of_int f
      in if d < 1 / 2 then f else if 1 / 2 < d then f + 1 else if even f then f else f + 1)"

definition ref_round2 :: "real \<Rightarrow> real" where
  "ref_round2 x = real_of_int (round_half_even (x * 100)) / 100"

definition ref_fmt_2f :: "real \<Rightarrow> string" where
  "ref_fmt_2f x =
     (let n = round_half_even (x * 100); a = nat \<bar>n\<bar>
      in (if n < 0 then ''-'' else []) @ str_nat (a div 100) @ ''.'' @ pad2 (a mod 100))"

definition ref_float_repr :: "real \<Rightarrow> string" where
  "ref_float_repr r =
     (if r = of_int \<lfloor>r\<rfloor> then str_int \<lfloor>r\<rfloor> @ ''.0'' else ref_fmt_2f r)"

definition hex_digit :: "nat \<Rightarrow> char" where
  "hex_digit n = ''0123456789abcdef'' ! n"

text \<open>\<open>repr\<close> of a string, with the quote \<open>q\<close> that \<open>repr\<close> has chosen.\<close>

definition repr_char :: "char \<Rightarrow> char \<Rightarrow> string" where
  "repr_char q c =
     (let n = (of_char c :: nat) in
      if c = CHR 0x5C then [CHR 0x5C, CHR 0x5C]
      else if c = q then [CHR 0x5C, q]
      else if c = CHR 0x0A then [CHR 0x5C, CHR ''n'']
      else if c = CHR 0x0D then [CHR 0x5C, CHR ''r'']
      else if c = CHR 0x09 then [CHR 0x5C, CHR ''t'']
      else if n < 32 \<or> 127 \<le> n then
        [CHR 0x5C, CHR ''x'', hex_digit (n div 16), hex_digit (n mod 16)]
      else [c])"

definition repr_str :: "string \<Rightarrow> string" where
  "repr_str s =
     (let q = (if CHR 0x27 \<in> set s \<and> CHR 0x22 \<notin> set s then CHR 0x22 else CHR 0x27)
      in q # concat (map (repr_char q) s) @ [q])"

primrec ref_repr :: "json \<Rightarrow> string" where
  "ref_repr JNull = ''None''"
| "ref_repr (JBool b) = (if b then ''True'' else ''False'')"
| "ref_repr (JInt n) = str_int n"
| "ref_repr (JFloat r) = ref_float_repr r"
| "ref_repr (JStr s) = repr_str s"
| "ref_repr (JArr xs) = ''['' @ join '', '' (map ref_repr xs) @ '']''"
| "ref_repr (JObj kvs) =
     ''{'' @ join '', '' (map (\<lambda>(k, r). repr_str k @ '': '' @ r) (map (map_prod id ref_repr) kvs))
       @ ''}''"

definition ref_py_str :: "json \<Rightarrow> string" where
  "ref_py_str v = (case v of JStr s \<Rightarrow> s | _ \<Rightarrow> ref_repr v)"

text \<open>\<open>json.dumps\<close> with \<open>ensure_ascii\<close> and \<open>indent=2\<close>.\<close>

definition json_char :: "char \<Rightarrow> string" where
  "json_char c =
     (let n = (of_char c :: nat) in
      if c = CHR 0x22 then [CHR 0x5C, CHR 0x22]
      else if c = CHR 0x5C then [CHR 0x5C, CHR 0x5C]
      else if c = CHR 0x0A then [CHR 0x5C, CHR ''n'']
      else if c = CHR 0x0D then [CHR 0x5C, CHR ''r'']
      else if c = CHR 0x09 then [CHR 0x5C, CHR ''t'']
      else if c = CHR 0x08 then [CHR 0x5C, CHR ''b'']
      else if c = CHR 0x0C then [CHR 0x5C, CHR ''f'']
      else if n < 32 \<or> 128 \<le> n then
        [CHR 0x5C, CHR ''u'', CHR ''0'', CHR ''0'', hex_digit (n div 16), hex_digit (n mod 16)]
      else [c])"

definition json_str :: "string \<Rightarrow> string" where
  "json_str s = CHR 0x22 # concat (map json_char s) @ [CHR 0x22]"

definition indent :: "nat \<Rightarrow> string" where
  "indent d = replicate (2 * d) (CHR '' '')"

primrec ref_dumps :: "json \<Rightarrow> nat \<Rightarrow> string" where
  "ref_dumps JNull d = ''null''"
| "ref_dumps (JBool b) d = (if b then ''true'' else ''false'')"
| "ref_dumps (JInt n) d = str_int n"
| "ref_dumps (JFloat r) d = ref_float_repr r"
| "ref_dumps (JStr s) d = json_str s"
| "ref_dumps (JArr xs) d =
     (if xs = [] then ''[]''
      else ''['' @ nl @ join ('','' @ nl)
             (map (\<lambda>f. indent (Suc d) @ f (Suc d)) (map ref_dumps xs))
           @ nl @ indent d @ '']'')"
| "ref_dumps (JObj kvs) d =
     (if kvs = [] then ''{}''
      else ''{'' @ nl @ join ('','' @ nl)
             (map (\<lambda>(k, f). indent (Suc d) @ json_str k @ '': '' @ f (Suc d))
                (map (map_prod id ref_dumps) kvs))
           @ nl @ indent d @ ''}'')"

definition ref_lib :: pylib where
  "ref_lib =
     \<lparr>int_of_str = ref_int_of_str,
      utc_error = ref_utc_error,
      strftime_ymd = ref_strftime_ymd,
      py_str = ref_py_str,
      fmt_2f = ref_fmt_2f,
      round2 = ref_round2,
      json_dumps = (\<lambda>v. ref_dumps v 0)\<rparr>"

section \<open>Metadata Extractor\<close>

text \<open>The running values of \<open>extract_metadata\<close>'s loop (lines 92-117).\<close>

record md_acc =
  acc_earliest :: "int option"
  acc_latest :: "int option"
  acc_authors :: "json list"
  acc_total_score :: int

record metadata =
  post_count :: nat
  earliest :: "string option"
  latest :: "string option"
  authors :: "json list"
  avg_score :: real
  total_score :: int
  unique_authors :: nat

text \<open>Line 103: \<open>datetime.utcfromtimestamp(int(item.get('created_utc', 0)))\<close>\<close>

definition created_time :: "pylib \<Rightarrow> item \<Rightarrow> error + int" where
  "created_time lib item =
     (case py_int lib (dict_get item ''created_utc'' (JInt 0)) of
        Inl e \<Rightarrow> Inl e
      | Inr t \<Rightarrow> utcfromtimestamp lib t)"

text \<open>Lines 102-109: the \<open>try\<close> block; \<open>ValueError\<close> and \<open>TypeError\<close> are swallowed.\<close>

definition date_step :: "pylib \<Rightarrow> item \<Rightarrow> md_acc \<Rightarrow> error + md_acc" where
  "date_step lib item acc =
     (case created_time lib item of
        Inr t \<Rightarrow>
          Inr (acc\<lparr>
            acc_earliest :=
              (case acc_earliest acc of
                 None \<Rightarrow> Some t
               | Some e \<Rightarrow> if t < e then Some t else Some e),
            acc_latest :=
              (case acc_latest acc of
                 None \<Rightarrow> Some t
               | Some l \<Rightarrow> if t > l then Some t else Some l)\<rparr>)
      | Inl e \<Rightarrow> if e = ValueError \<or> e = TypeError then Inr acc else Inl e)"

text \<open>Lines 111-113.\<close>

definition is_excluded :: "json \<Rightarrow> bool" where
  "is_excluded v = (v = JStr ''[deleted]'' \<or> v = JStr ''AutoModerator'')"

definition author_step :: "item \<Rightarrow> md_acc \<Rightarrow> error + md_acc" where
  "author_step item acc =
     (case item ''author'' of
        None \<Rightarrow> Inr acc
      | Some a \<Rightarrow>
          if is_excluded a then Inr acc
          else (case set_add (acc_authors acc) a of
                  Inl e \<Rightarrow> Inl e
                | Inr s \<Rightarrow> Inr (acc\<lparr>acc_authors := s\<rparr>)))"

text \<open>Lines 115-117.\<close>

definition score_step :: "pylib \<Rightarrow> item \<Rightarrow> md_acc \<Rightarrow> error + md_acc" where
  "score_step lib item acc =
     (case item ''score'' of
        None \<Rightarrow> Inr acc
      | Some v \<Rightarrow>
          (case py_int lib v of
             Inl e \<Rightarrow> Inl e
           | Inr n \<Rightarrow> Inr (acc\<lparr>acc_total_score := acc_total_score acc + n\<rparr>)))"

definition metadata_step :: "pylib \<Rightarrow> item \<Rightarrow> md_acc \<Rightarrow> error + md_acc" where
  "metadata_step lib item acc =
     (case date_step lib item acc of
        Inl e \<Rightarrow> Inl e
      | Inr acc1 \<Rightarrow>
          (case author_step item acc1 of
             Inl e \<Rightarrow> Inl e
           | Inr acc2 \<Rightarrow> score_step lib item acc2))"

fun metadata_loop :: "pylib \<Rightarrow> item list \<Rightarrow> md_acc \<Rightarrow> error + md_acc" where
  "metadata_loop lib [] acc = Inr acc"
| "metadata_loop lib (item # rest) acc =
     (case metadata_step lib item acc of
        Inl e \<Rightarrow> Inl e
      | Inr acc' \<Rightarrow> metadata_loop lib rest acc')"

definition md_init :: md_acc where
  "md_init = \<lparr>acc_earliest = None, acc_latest = None, acc_authors = [], acc_total_score = 0\<rparr>"

text \<open>
  \<open>extract_metadata\<close>, lines 88-133. A \<open>datetime\<close> is always true in a condition, so
  lines 124-127 format both ends of the range whenever they are set.
\<close>

definition extract_metadata :: "pylib \<Rightarrow> item list \<Rightarrow> error + metadata" where
  "extract_metadata lib subreddit_data =
     (case metadata_loop lib subreddit_data md_init of
        Inl e \<Rightarrow> Inl e
      | Inr acc \<Rightarrow>
          Inr \<lparr>post_count = length subreddit_data,
               earliest = map_option (strftime_ymd lib) (acc_earliest acc),
               latest = map_option (strftime_ymd lib) (acc_latest acc),
               authors = acc_authors acc,
               avg_score =
                 (if length subreddit_data > 0
                  then real_of_int (acc_total_score acc) / real (length subreddit_data)
                  else 0),
               total_score = acc_total_score acc,
               unique_authors = length (acc_authors acc)\<rparr>)"

text \<open>
  The timestamp an item brings to the date range, read off lines 102-109: the value of
  \<open>created_utc\<close> converted by \<open>int\<close>, or 0 when the key is absent (the default of
  \<open>item.get\<close>); nothing when the conversion or \<open>utcfromtimestamp\<close> raises.
\<close>

definition range_timestamp :: "pylib \<Rightarrow> item \<Rightarrow> int option" where
  "range_timestamp lib item =
     (case item ''created_utc'' of
        None \<Rightarrow> (case utc_error lib 0 of None \<Rightarrow> Some 0 | Some _ \<Rightarrow> None)
      | Some v \<Rightarrow>
          (case py_int lib v of
             Inl _ \<Rightarrow> None
           | Inr t \<Rightarrow> (case utc_error lib t of None \<Rightarrow> Some t | Some _ \<Rightarrow> None)))"

definition lowest :: "int list \<Rightarrow> int option" where
  "lowest ts = (if ts = [] then None else Some (Min (set ts)))"

definition highest :: "int list \<Rightarrow> int option" where
  "highest ts = (if ts = [] then None else Some (Max (set ts)))"

definition contrib :: "pylib \<Rightarrow> item \<Rightarrow> int list" where
  "contrib lib item = (case range_timestamp lib item of None \<Rightarrow> [] | Some t \<Rightarrow> [t])"

text \<open>
  A chunk of four records: a deleted author with a timestamp that is not a number, two
  records of one author, and a moderator bot with a \<open>null\<close> timestamp.
\<close>

definition example_chunk :: "item list" where
  "example_chunk =
     [[''author'' \<mapsto> JStr ''[deleted]'', ''score'' \<mapsto> JInt 2, ''created_utc'' \<mapsto> JStr ''abc''],
      [''author'' \<mapsto> JStr ''alice'', ''score'' \<mapsto> JInt 3, ''created_utc'' \<mapsto> JInt 86400],
      [''author'' \<mapsto> JStr ''AutoModerator'', ''created_utc'' \<mapsto> JNull],
      [''author'' \<mapsto> JStr ''alice'', ''created_utc'' \<mapsto> JStr ''172800'']]"

definition example_metadata :: metadata where
  "example_metadata =
     \<lparr>post_count = 4, earliest = Some ''1970-01-02'', latest = Some ''1970-01-03'',
      authors = [JStr ''alice''], avg_score = 5 / 4, total_score = 5, unique_authors = 1\<rparr>"

section \<open>Chunker\<close>

text \<open>
  Modelled from the spec: \<open>chunk_list\<close> is imported from \<open>personal.utils\<close>, which is
  not among the sources. Section 4.3: the buffer is split into contiguous, order-preserving
  batches of exactly \<open>chunk_size\<close> records, the final batch possibly shorter. The spec
  gives no behaviour for \<open>chunk_size \<le> 0\<close>; the model yields no batch there.
\<close>

function chunk_list :: "'a list \<Rightarrow> int \<Rightarrow> 'a list list" where
  "chunk_list items chunk_size =
     (if chunk_size \<le> 0 \<or> items = [] then []
      else take (nat chunk_size) items # chunk_list (drop (nat chunk_size) items) chunk_size)"
  by pat_completeness auto
termination
  by (relation "measure (\<lambda>(items, chunk_size). length items)") auto

declare chunk_list.simps [simp del]

text \<open>Python's \<open>xs[:m]\<close>: a negative \<open>m\<close> counts from the end of the list.\<close>

definition slice_to :: "'a list \<Rightarrow> int \<Rightarrow> 'a list" where
  "slice_to xs m =
     (if 0 \<le> m then take (nat m) xs else take (length xs - nat (- m)) xs)"

text \<open>
  Lines 370-377 of \<open>process_subreddit_file\<close>:
  \<open>chunks = list(chunk_list(all_items, chunk_size))\<close>,
  \<open>chunks_to_process = chunks[:max_chunks]\<close>.
\<close>

definition chunks_to_process :: "'a list \<Rightarrow> int \<Rightarrow> int \<Rightarrow> 'a list list" where
  "chunks_to_process all_items chunk_size max_chunks =
     slice_to (chunk_list all_items chunk_size) max_chunks"

section \<open>Record Source, Size Estimator, Bounded Ingestor, coverage\<close>

text \<open>
  Modelled from the spec: \<open>read_obj_zst_meta\<close> is imported from \<open>personal.utils\<close>, which
  is not among the sources. Section 6: a lazy producer, restartable from the start, of
  triples (record, raw line, cumulative bytes consumed). An archive is its size in bytes,
  the triples a pass yields, and the exception a pass raises after the last of them
  (\<open>None\<close> when the pass ends normally).
\<close>

record archive =
  file_size :: nat
  records :: "(item \<times> string \<times> nat) list"
  read_error :: "error option"

text \<open>\<open>except Exception\<close> catches every exception of the model but \<open>SystemExit\<close>.\<close>

definition is_exception :: "error \<Rightarrow> bool" where
  "is_exception e = (e \<noteq> SystemExit)"

text \<open>Lines 302-305: the counting pass.\<close>

fun count_loop :: "(item \<times> string \<times> nat) list \<Rightarrow> error option \<Rightarrow> nat \<Rightarrow> error + nat" where
  "count_loop [] err total_items_estimate =
     (case err of None \<Rightarrow> Inr total_items_estimate | Some e \<Rightarrow> Inl e)"
| "count_loop (r # rest) err total_items_estimate =
     count_loop rest err (total_items_estimate + 1)"

definition sample_size :: nat where
  "sample_size = 1000"

text \<open>
  Lines 321-325: the sampling pass; the result is \<open>(sample_items, sample_bytes)\<close>, and
  \<open>sample_bytes\<close> stays 0 unless the loop reaches \<open>sample_size\<close> records.
\<close>

fun sample_loop ::
  "(item \<times> string \<times> nat) list \<Rightarrow> error option \<Rightarrow> nat \<Rightarrow> error + nat \<times> nat" where
  "sample_loop [] err sample_items =
     (case err of None \<Rightarrow> Inr (sample_items, 0) | Some e \<Rightarrow> Inl e)"
| "sample_loop ((obj, line, file_bytes_processed) # rest) err sample_items =
     (if sample_items + 1 \<ge> sample_size then Inr (sample_items + 1, file_bytes_processed)
      else sample_loop rest err (sample_items + 1))"

definition bytes_per_item :: nat where
  "bytes_per_item = 500"

text \<open>
  Lines 296-336 of \<open>process_subreddit_file\<close>: the value of \<open>total_items_estimate\<close> after
  the first pass. \<open>int\<close> of a non-negative float is its floor.
\<close>

definition estimate_total_items :: "archive \<Rightarrow> error + nat" where
  "estimate_total_items a =
     (if file_size a < 500 * 1024 * 1024 then
        (case count_loop (records a) (read_error a) 0 of
           Inr total_items_estimate \<Rightarrow> Inr total_items_estimate
         | Inl e \<Rightarrow>
             if is_exception e then Inr (file_size a div bytes_per_item) else Inl e)
      else
        (case sample_loop (records a) (read_error a) 0 of
           Inl e \<Rightarrow> Inl e
         | Inr (sample_items, sample_bytes) \<Rightarrow>
             if sample_items > 0 \<and> sample_bytes > 0 then
               Inr (nat \<lfloor>(real sample_items / real sample_bytes) * real (file_size a)\<rfloor>)
             else Inr (file_size a div bytes_per_item)))"

text \<open>
  Lines 340-352: the second pass. The progress message of line 346 divides by the file
  size every 10000 records.
\<close>

fun read_loop ::
  "(item \<times> string \<times> nat) list \<Rightarrow> error option \<Rightarrow> nat \<Rightarrow> int \<Rightarrow> item list \<Rightarrow> nat
     \<Rightarrow> error + item list \<times> nat" where
  "read_loop [] err fsize limit all_items items_processed =
     (case err of None \<Rightarrow> Inr (all_items, items_processed) | Some e \<Rightarrow> Inl e)"
| "read_loop ((obj, line, file_bytes_processed) # rest) err fsize limit all_items items_processed =
     (if (items_processed + 1) mod 10000 = 0 \<and> fsize = 0 then Inl ZeroDivisionError
      else if int (items_processed + 1) \<ge> limit then
        Inr (all_items @ [obj], items_processed + 1)
      else read_loop rest err fsize limit (all_items @ [obj]) (items_processed + 1))"

definition read_items :: "archive \<Rightarrow> int \<Rightarrow> int \<Rightarrow> error + item list \<times> nat" where
  "read_items a chunk_size max_chunks =
     read_loop (records a) (read_error a) (file_size a) (chunk_size * max_chunks) [] 0"

text \<open>
  Lines 354-368. \<open>coverage_pct\<close> is the integer 0 unless the estimate is positive, and
  \<open>round\<close> of the integer 0 is 0.
\<close>

record file_coverage =
  items_processed :: nat
  total_items_estimate :: nat
  coverage_percentage :: real
  file_size_bytes :: nat

definition coverage_pct :: "nat \<Rightarrow> nat \<Rightarrow> real" where
  "coverage_pct n_processed n_estimate =
     (if n_estimate > 0 then (real n_processed / real n_estimate) * 100 else 0)"

definition make_file_coverage :: "pylib \<Rightarrow> nat \<Rightarrow> nat \<Rightarrow> nat \<Rightarrow> file_coverage" where
  "make_file_coverage lib n_processed n_estimate fsize =
     \<lparr>items_processed = n_processed,
      total_items_estimate = n_estimate,
      coverage_percentage =
        (if n_estimate > 0 then round2 lib (coverage_pct n_processed n_estimate) else 0),
      file_size_bytes = fsize\<rparr>"

text \<open>
  Lines 547-591 of \<open>main\<close>: the overall coverage from the coverage of the submissions
  and of the comments, each absent when its file was not processed.
\<close>

record overall_coverage =
  overall_total_items_estimate :: nat
  overall_items_processed :: nat
  overall_coverage_percentage :: real

definition add_coverage :: "file_coverage option \<Rightarrow> nat \<times> nat \<Rightarrow> nat \<times> nat" where
  "add_coverage c acc =
     (case c of
        None \<Rightarrow> acc
      | Some fc \<Rightarrow> (fst acc + total_items_estimate fc, snd acc + items_processed fc))"

definition make_overall_coverage ::
  "pylib \<Rightarrow> file_coverage option \<Rightarrow> file_coverage option \<Rightarrow> overall_coverage" where
  "make_overall_coverage lib submission_coverage comment_coverage =
     (let (n_estimate, n_processed) =
            add_coverage comment_coverage (add_coverage submission_coverage (0, 0))
      in \<lparr>overall_total_items_estimate = n_estimate,
          overall_items_processed = n_processed,
          overall_coverage_percentage =
            (if n_estimate > 0
             then round2 lib ((real n_processed / real n_estimate) * 100)
             else 0)\<rparr>)"

section \<open>Prompt Builder\<close>

text \<open>How an f-string prints a value that is a string or \<open>None\<close>.\<close>

definition opt_str :: "string option \<Rightarrow> string" where
  "opt_str v = (case v of None \<Rightarrow> ''None'' | Some s \<Rightarrow> s)"

text \<open>
  Lines 149 and 159: \<open>datetime.utcfromtimestamp(int(item.get('created_utc', 0)))\<close>
  formatted as a date, outside any \<open>try\<close>.
\<close>

definition format_date :: "pylib \<Rightarrow> item \<Rightarrow> error + string" where
  "format_date lib item =
     (case created_time lib item of
        Inl e \<Rightarrow> Inl e
      | Inr t \<Rightarrow> Inr (strftime_ymd lib t))"

text \<open>Lines 153 and 161: \<open>v and v != "[deleted]" and v != "[removed]"\<close>\<close>

definition is_text :: "json \<Rightarrow> bool" where
  "is_text v = (truthy v \<and> v \<noteq> JStr ''[deleted]'' \<and> v \<noteq> JStr ''[removed]'')"

text \<open>Lines 144-154.\<close>

definition format_submission :: "pylib \<Rightarrow> item \<Rightarrow> error + string" where
  "format_submission lib item =
     (let title = dict_get item ''title'' (JStr ''No Title'');
          selftext = dict_get item ''selftext'' (JStr []);
          score = dict_get item ''score'' (JInt 0);
          num_comments = dict_get item ''num_comments'' (JInt 0)
      in case format_date lib item of
           Inl e \<Rightarrow> Inl e
         | Inr created \<Rightarrow>
             Inr (''POST [Score: '' @ py_str lib score @ '', Comments: ''
                    @ py_str lib num_comments @ '', Date: '' @ created @ '']'' @ nl
                  @ ''TITLE: '' @ py_str lib title @ nl
                  @ (if is_text selftext then ''CONTENT: '' @ py_str lib selftext @ nl
                     else [])))"

text \<open>Lines 156-165; \<open>None\<close> stands for \<open>continue\<close>.\<close>

definition format_comment :: "pylib \<Rightarrow> item \<Rightarrow> error + string option" where
  "format_comment lib item =
     (let body = dict_get item ''body'' (JStr []);
          score = dict_get item ''score'' (JInt 0)
      in case format_date lib item of
           Inl e \<Rightarrow> Inl e
         | Inr created \<Rightarrow>
             if is_text body then
               Inr (Some (''COMMENT [Score: '' @ py_str lib score @ '', Date: '' @ created
                            @ '']'' @ nl
                          @ ''CONTENT: '' @ py_str lib body @ nl))
             else Inr None)"

fun format_items :: "pylib \<Rightarrow> bool \<Rightarrow> item list \<Rightarrow> string list \<Rightarrow> error + string list" where
  "format_items lib is_submission [] formatted_items = Inr formatted_items"
| "format_items lib is_submission (item # rest) formatted_items =
     (if is_submission then
        (case format_submission lib item of
           Inl e \<Rightarrow> Inl e
         | Inr formatted_text \<Rightarrow>
             format_items lib is_submission rest (formatted_items @ [formatted_text]))
      else
        (case format_comment lib item of
           Inl e \<Rightarrow> Inl e
         | Inr None \<Rightarrow> format_items lib is_submission rest formatted_items
         | Inr (Some formatted_text) \<Rightarrow>
             format_items lib is_submission rest (formatted_items @ [formatted_text])))"

text \<open>\<open>format_content_for_ai\<close>, lines 136-169.\<close>

definition format_content_for_ai :: "pylib \<Rightarrow> item list \<Rightarrow> bool \<Rightarrow> error + string" where
  "format_content_for_ai lib items is_submission =
     (case format_items lib is_submission items [] of
        Inl e \<Rightarrow> Inl e
      | Inr formatted_items \<Rightarrow> Inr (join (nl @ nl) formatted_items))"

text \<open>\<open>prepare_ai_prompt\<close>, lines 172-220: the f-string, line by line.\<close>

definition prepare_ai_prompt :: "string \<Rightarrow> string \<Rightarrow> metadata \<Rightarrow> string" where
  "prepare_ai_prompt subreddit_name content metadata =
     nl @ join nl
       [''# Subreddit Community Analysis: r/'' @ subreddit_name,
        [],
        ''## Context'',
        ''- Subreddit: r/'' @ subreddit_name,
        ''- Time period: '' @ opt_str (earliest metadata) @ '' to ''
          @ opt_str (latest metadata),
        ''- Sample size: '' @ str_nat (post_count metadata) @ '' posts/comments'',
        ''- Unique authors: '' @ str_nat (unique_authors metadata),
        [],
        ''## Your Task'',
        ''You are a cultural anthropologist and user researcher analyzing ''
          @ ''this community to identify pain points, challenges, and ''
          @ ''recurring themes. Based on the content provided, conduct a ''
          @ ''thorough analysis of the community conversations.'',
        [],
        ''## Analysis Framework'',
        ''Please analyze the following content from r/'' @ subreddit_name
          @ '' and provide insights in these categories:'',
        [],
        ''0. **General Information**'',
        ''   - What is the community about?'',
        ''   - What are the main topics discussed?'',
        ''   - What is popular to chat about, what isn'' @ [CHR 0x27] @ ''t?'',
        [],
        ''1. **Primary Pain Points and Problems**'',
        ''   - Identify the most significant challenges, frustrations, or ''
          @ ''problems faced by community members'',
        ''   - Rank these issues by apparent frequency and emotional intensity'',
        ''   - Include specific examples or quotes that illustrate each pain point'',
        [],
        ''2. **Recurring Questions and Information Gaps**'',
        ''   - Note patterns of questions that appear repeatedly'',
        ''   - Identify topics where users seem to lack information or clarity'',
        ''   - Highlight areas where the community struggles to find ''
          @ ''consensus or clear answers'',
        [],
        ''3. **Most Popular Solutions, Products, or Services**'',
        ''   - Identify the most frequently discussed solutions, ''
          @ ''products, or services'',
        ''   - Analyze the frequency and intensity of discussion around ''
          @ ''these topics'',
        ''   - Consider the emotional tone and sentiment associated with ''
          @ ''each topic'',
        [],
        ''4. **Least Popular Solutions, Products, or Services**'',
        ''   - Identify the least frequently discussed solutions, ''
          @ ''products, or services'',
        ''   - Analyze the frequency and intensity of discussion around ''
          @ ''these topics'',
        ''   - Consider the emotional tone and sentiment associated with ''
          @ ''each topic'',
        [],
        ''## Content For Analysis:'',
        [],
        content]
     @ nl"

section \<open>Paths, files and the completion service\<close>

text \<open>\<open>os.path.basename\<close> and \<open>os.path.join\<close> on POSIX paths.\<close>

definition basename :: "string \<Rightarrow> string" where
  "basename p = rev (takeWhile (\<lambda>c. c \<noteq> CHR ''/'') (rev p))"

definition path_join :: "string \<Rightarrow> string \<Rightarrow> string" where
  "path_join a b =
     (if b \<noteq> [] \<and> hd b = CHR ''/'' then b
      else if a = [] \<or> last a = CHR ''/'' then a @ b
      else a @ ''/'' @ b)"

text \<open>Lines 287, 538 and 540: \<open>os.path.basename(path).split('_')[0]\<close>\<close>

definition subreddit_of_path :: "string \<Rightarrow> string" where
  "subreddit_of_path p = takeWhile (\<lambda>c. c \<noteq> CHR ''_'') (basename p)"

text \<open>
  A request to the completion service and what comes back: a completion, a completion
  whose content is \<open>null\<close>, a \<open>RequestException\<close> (with the status code of the response
  when there is one), or a response whose body raises when it is read.
\<close>

record request =
  req_model :: string
  req_prompt :: string
  req_max_tokens :: nat

datatype response =
  Content string | NullContent | RequestFailed "nat option" | Malformed error

text \<open>
  What a run is given: the library, the value of \<open>OPENAI_API_KEY\<close>, the archives on
  disk by path, the completion service (its answer may depend on how many requests came
  before) and the date of the day. Archives are inputs and are kept apart from the
  files the run writes.
\<close>

record env =
  env_lib :: pylib
  api_key :: "string option"
  archives :: "string \<rightharpoonup> archive"
  llm :: "nat \<Rightarrow> request \<Rightarrow> response"
  today :: string

text \<open>
  What a run changes: the directories it has made, the files it has written (a later
  write to a path replaces the earlier one) and the requests it has sent, oldest first.
  Writing a file always succeeds.
\<close>

record state =
  dirs :: "string set"
  files :: "string \<rightharpoonup> string"
  calls :: "request list"

definition path_exists :: "state \<Rightarrow> string \<Rightarrow> bool" where
  "path_exists s p = (p \<in> dirs s \<or> files s p \<noteq> None)"

text \<open>\<open>if not os.path.exists(d): os.makedirs(d)\<close>\<close>

definition ensure_dir :: "string \<Rightarrow> state \<Rightarrow> state" where
  "ensure_dir d s = (if path_exists s d then s else s\<lparr>dirs := insert d (dirs s)\<rparr>)"

definition write_file :: "string \<Rightarrow> string \<Rightarrow> state \<Rightarrow> state" where
  "write_file p text s = s\<lparr>files := (files s)(p \<mapsto> text)\<rparr>"

text \<open>\<open>not OPENAI_API_KEY\<close> holds for \<open>None\<close> and for the empty string.\<close>

definition has_api_key :: "env \<Rightarrow> bool" where
  "has_api_key env = (case api_key env of None \<Rightarrow> False | Some k \<Rightarrow> k \<noteq> [])"

text \<open>
  \<open>analyze_with_openai\<close>, lines 223-268. The key is checked first; a request that fails
  with a \<open>RequestException\<close> gives \<open>None\<close>, whatever its status code.
\<close>

definition analyze_with_openai ::
  "env \<Rightarrow> string \<Rightarrow> string \<Rightarrow> nat \<Rightarrow> state \<Rightarrow> (error + string option) \<times> state" where
  "analyze_with_openai env prompt model max_tokens s =
     (if \<not> has_api_key env then (Inl ValueError, s)
      else
        let req = \<lparr>req_model = model, req_prompt = prompt, req_max_tokens = max_tokens\<rparr>;
            s' = s\<lparr>calls := calls s @ [req]\<rparr>
        in case llm env (length (calls s)) req of
             Content c \<Rightarrow> (Inr (Some c), s')
           | NullContent \<Rightarrow> (Inr None, s')
           | RequestFailed status \<Rightarrow> (Inr None, s')
           | Malformed e \<Rightarrow> (Inl e, s'))"

text \<open>\<open>if analysis:\<close> holds for a completion that is a non-empty string.\<close>

definition usable :: "string option \<Rightarrow> bool" where
  "usable a = (case a of None \<Rightarrow> False | Some text \<Rightarrow> text \<noteq> [])"

section \<open>The pipeline of one archive\<close>

record chunk_result =
  chunk_id :: nat
  chunk_metadata :: metadata
  chunk_analysis :: string

text \<open>The values \<open>json.dump\<close> is given, key by key in the order the dictionaries are built.\<close>

definition opt_json :: "string option \<Rightarrow> json" where
  "opt_json v = (case v of None \<Rightarrow> JNull | Some s \<Rightarrow> JStr s)"

definition metadata_json :: "metadata \<Rightarrow> json" where
  "metadata_json m =
     JObj [(''post_count'', JInt (int (post_count m))),
           (''date_range'',
              JObj [(''earliest'', opt_json (earliest m)), (''latest'', opt_json (latest m))]),
           (''authors'', JArr (authors m)),
           (''avg_score'', if post_count m > 0 then JFloat (avg_score m) else JInt 0),
           (''total_score'', JInt (total_score m)),
           (''unique_authors'', JInt (int (unique_authors m)))]"

definition result_json :: "chunk_result \<Rightarrow> json" where
  "result_json r =
     JObj [(''chunk_id'', JInt (int (chunk_id r))),
           (''metadata'', metadata_json (chunk_metadata r)),
           (''analysis'', JStr (chunk_analysis r))]"

definition coverage_json :: "file_coverage \<Rightarrow> json" where
  "coverage_json c =
     JObj [(''items_processed'', JInt (int (items_processed c))),
           (''total_items_estimate'', JInt (int (total_items_estimate c))),
           (''coverage_percentage'',
              if total_items_estimate c > 0 then JFloat (coverage_percentage c) else JInt 0),
           (''file_size_bytes'', JInt (int (file_size_bytes c)))]"

text \<open>
  Lines 379-424: the loop over \<open>enumerate(chunks_to_process)\<close>, from index \<open>i\<close> on. The
  prompt is written before the request is made; the pause between two requests changes
  nothing that is modelled.
\<close>

fun process_chunks ::
  "env \<Rightarrow> string \<Rightarrow> string \<Rightarrow> bool \<Rightarrow> nat \<Rightarrow> item list list \<Rightarrow> chunk_result list \<Rightarrow> state
     \<Rightarrow> (error + chunk_result list) \<times> state" where
  "process_chunks env output_dir subreddit_name is_submission i [] chunk_results s =
     (Inr chunk_results, s)"
| "process_chunks env output_dir subreddit_name is_submission i (chunk # rest) chunk_results s =
     (case extract_metadata (env_lib env) chunk of
        Inl e \<Rightarrow> (Inl e, s)
      | Inr metadata \<Rightarrow>
          (case format_content_for_ai (env_lib env) chunk is_submission of
             Inl e \<Rightarrow> (Inl e, s)
           | Inr formatted_content \<Rightarrow>
               let prompt = prepare_ai_prompt subreddit_name formatted_content metadata;
                   prompt_file =
                     path_join output_dir
                       (subreddit_name @ ''_chunk_'' @ str_nat (i + 1) @ ''_prompt.txt'');
                   s1 = write_file prompt_file prompt s
               in case analyze_with_openai env prompt ''gpt-4o'' 4000 s1 of
                    (Inl e, s2) \<Rightarrow> (Inl e, s2)
                  | (Inr a, s2) \<Rightarrow>
                      if usable a then
                        let analysis_file =
                              path_join output_dir
                                (subreddit_name @ ''_chunk_'' @ str_nat (i + 1)
                                   @ ''_analysis.md'');
                            s3 = write_file analysis_file (the a) s2
                        in process_chunks env output_dir subreddit_name is_submission (i + 1)
                             rest
                             (chunk_results @
                                [\<lparr>chunk_id = i + 1, chunk_metadata = metadata,
                                  chunk_analysis = the a\<rparr>])
                             s3
                      else
                        process_chunks env output_dir subreddit_name is_submission (i + 1)
                          rest chunk_results s2))"

text \<open>Lines 439-440: one chunk analysis under its heading.\<close>

definition labelled :: "chunk_result \<Rightarrow> string" where
  "labelled r =
     ''## Chunk '' @ str_nat (chunk_id r) @ '' Analysis'' @ nl @ nl @ chunk_analysis r"

text \<open>The f-string \<open>meta_prompt\<close> of lines 442-461.\<close>

definition meta_prompt :: "pylib \<Rightarrow> string \<Rightarrow> nat \<Rightarrow> real \<Rightarrow> string \<Rightarrow> string" where
  "meta_prompt lib subreddit_name n_results cov_pct all_analyses =
     nl @ join nl
       [''# Meta-Analysis of r/'' @ subreddit_name,
        [],
        ''You have been provided with '' @ str_nat n_results @ '' separate analyses of different chunks of content from the ''
          @ ''subreddit r/'' @ subreddit_name @ ''.'',
        ''Your task is to synthesize these analyses into a coherent ''
          @ ''summary that identifies:'',
        [],
        ''1. The most consistent pain points and problems across all analyses'',
        ''2. The most common questions and information gaps'',
        ''3. The most frequently discussed solutions, products, or services'',
        ''4. Overall themes and patterns in the community'',
        [],
        ''Please provide a comprehensive summary that brings together the ''
          @ ''insights from all chunks, highlighting both consistencies and ''
          @ ''any notable differences between chunks.'',
        [],
        ''## Analysis Coverage'',
        ''This analysis covers approximately '' @ fmt_2f lib cov_pct
          @ ''% of the total content in the subreddit file.'',
        [],
        ''## Individual Chunk Analyses'',
        [],
        all_analyses]
     @ nl"

definition meta_summary ::
  "env \<Rightarrow> string \<Rightarrow> chunk_result list \<Rightarrow> file_coverage \<Rightarrow> string \<Rightarrow> json" where
  "meta_summary env subreddit_name chunk_results file_cov meta_analysis =
     JObj [(''subreddit'', JStr subreddit_name),
           (''chunks_analyzed'', JInt (int (length chunk_results))),
           (''total_posts_analyzed'',
              JInt (int (sum_list (map (\<lambda>r. post_count (chunk_metadata r)) chunk_results)))),
           (''coverage_data'', coverage_json file_cov),
           (''analysis_date'', JStr (today env)),
           (''meta_analysis'', JStr meta_analysis)]"

definition single_summary ::
  "env \<Rightarrow> string \<Rightarrow> chunk_result \<Rightarrow> file_coverage \<Rightarrow> json" where
  "single_summary env subreddit_name r file_cov =
     JObj [(''subreddit'', JStr subreddit_name),
           (''chunks_analyzed'', JInt 1),
           (''total_posts_analyzed'', JInt (int (post_count (chunk_metadata r)))),
           (''coverage_data'', coverage_json file_cov),
           (''analysis_date'', JStr (today env)),
           (''analysis'', JStr (chunk_analysis r))]"

definition summary_path :: "string \<Rightarrow> string \<Rightarrow> string" where
  "summary_path output_dir subreddit_name =
     path_join output_dir (subreddit_name @ ''_analysis_summary.json'')"

text \<open>
  Lines 427-505: what is done with the list of chunk analyses. \<open>cov_pct\<close> is the
  unrounded percentage of line 357.
\<close>

definition summarize ::
  "env \<Rightarrow> string \<Rightarrow> string \<Rightarrow> chunk_result list \<Rightarrow> file_coverage \<Rightarrow> real \<Rightarrow> state
     \<Rightarrow> (error + unit) \<times> state" where
  "summarize env output_dir subreddit_name chunk_results file_cov cov_pct s =
     (if chunk_results = [] then (Inr (), s)
      else
        let combined_file = path_join output_dir (subreddit_name @ ''_all_analyses.json'');
            s1 = write_file combined_file
                   (json_dumps (env_lib env) (JArr (map result_json chunk_results))) s
        in if length chunk_results > 1 then
             let all_analyses = join (nl @ nl) (map labelled chunk_results);
                 mp = meta_prompt (env_lib env) subreddit_name (length chunk_results) cov_pct
                        all_analyses;
                 meta_prompt_file = path_join output_dir (subreddit_name @ ''_meta_prompt.txt'');
                 s2 = write_file meta_prompt_file mp s1
             in case analyze_with_openai env mp ''gpt-4o'' 4000 s2 of
                  (Inl e, s3) \<Rightarrow> (Inl e, s3)
                | (Inr a, s3) \<Rightarrow>
                    if usable a then
                      let meta_file =
                            path_join output_dir (subreddit_name @ ''_meta_analysis.md'');
                          s4 = write_file meta_file (the a) s3
                      in (Inr (),
                          write_file (summary_path output_dir subreddit_name)
                            (json_dumps (env_lib env)
                               (meta_summary env subreddit_name chunk_results file_cov (the a)))
                            s4)
                    else (Inr (), s3)
           else
             (Inr (),
              write_file (summary_path output_dir subreddit_name)
                (json_dumps (env_lib env)
                   (single_summary env subreddit_name (hd chunk_results) file_cov))
                s1))"

text \<open>
  Lines 271-424 of \<open>process_subreddit_file\<close>: everything up to the end of the loop over
  the chunks. The result is \<open>None\<close> when the file does not exist, else the chunk analyses,
  the coverage and the unrounded percentage of line 357.
\<close>

definition chunk_stage ::
  "env \<Rightarrow> string \<Rightarrow> string \<Rightarrow> int \<Rightarrow> int \<Rightarrow> bool \<Rightarrow> state
     \<Rightarrow> (error + (chunk_result list \<times> file_coverage \<times> real) option) \<times> state" where
  "chunk_stage env file_path output_dir chunk_size max_chunks is_submission s =
     (case archives env file_path of
        None \<Rightarrow> (Inr None, s)
      | Some a \<Rightarrow>
          let s0 = ensure_dir output_dir s;
              subreddit_name = subreddit_of_path file_path
          in case estimate_total_items a of
               Inl e \<Rightarrow> (Inl e, s0)
             | Inr n_estimate \<Rightarrow>
                 (case read_items a chunk_size max_chunks of
                    Inl e \<Rightarrow> (Inl e, s0)
                  | Inr (all_items, n_processed) \<Rightarrow>
                      let file_cov =
                            make_file_coverage (env_lib env) n_processed n_estimate (file_size a);
                          chunks = chunks_to_process all_items chunk_size max_chunks
                      in case process_chunks env output_dir subreddit_name is_submission 0
                                chunks [] s0 of
                           (Inl e, s1) \<Rightarrow> (Inl e, s1)
                         | (Inr chunk_results, s1) \<Rightarrow>
                             (Inr (Some (chunk_results, file_cov,
                                         coverage_pct n_processed n_estimate)), s1)))"

text \<open>
  \<open>process_subreddit_file\<close>, lines 271-507: the stage above, then the summary of lines
  427-505; it returns the chunk analyses and the coverage (line 507).
\<close>

definition process_subreddit_file ::
  "env \<Rightarrow> string \<Rightarrow> string \<Rightarrow> int \<Rightarrow> int \<Rightarrow> bool \<Rightarrow> state
     \<Rightarrow> (error + (chunk_result list \<times> file_coverage) option) \<times> state" where
  "process_subreddit_file env file_path output_dir chunk_size max_chunks is_submission s =
     (case chunk_stage env file_path output_dir chunk_size max_chunks is_submission s of
        (Inl e, s1) \<Rightarrow> (Inl e, s1)
      | (Inr None, s1) \<Rightarrow> (Inr None, s1)
      | (Inr (Some (chunk_results, file_cov, cov_pct)), s1) \<Rightarrow>
          (case summarize env output_dir (subreddit_of_path file_path) chunk_results file_cov
                  cov_pct s1 of
             (Inl e, s2) \<Rightarrow> (Inl e, s2)
           | (Inr u, s2) \<Rightarrow> (Inr (Some (chunk_results, file_cov)), s2)))"

text \<open>The value a JSON object holds under a key.\<close>

definition json_field :: "json \<Rightarrow> string \<Rightarrow> json option" where
  "json_field v key = (case v of JObj kvs \<Rightarrow> map_of kvs key | _ \<Rightarrow> None)"

section \<open>The entry point\<close>

text \<open>The parsed command line; an option that was not given is \<open>None\<close>.\<close>

record args =
  arg_submissions :: "string option"
  arg_comments :: "string option"
  arg_subreddit :: "string option"
  arg_data_dir :: string
  arg_output_dir :: string
  arg_chunk_size :: int
  arg_max_chunks :: int
  arg_model :: string

text \<open>An option counts in a condition when it was given and is not the empty string.\<close>

definition given :: "string option \<Rightarrow> bool" where
  "given v = (case v of None \<Rightarrow> False | Some x \<Rightarrow> x \<noteq> [])"

text \<open>Lines 530-533: the two archive paths.\<close>

definition resolve_paths :: "args \<Rightarrow> string option \<times> string option" where
  "resolve_paths a =
     (if given (arg_subreddit a) \<and> \<not> given (arg_submissions a) \<and> \<not> given (arg_comments a)
      then (Some (path_join (arg_data_dir a) (the (arg_subreddit a) @ ''_submissions.zst'')),
            Some (path_join (arg_data_dir a) (the (arg_subreddit a) @ ''_comments.zst'')))
      else (arg_submissions a, arg_comments a))"

text \<open>
  Lines 536-540: the name \<open>main\<close> uses. After the check of line 527 one of the three
  branches applies.
\<close>

definition main_subreddit_name :: "args \<Rightarrow> string" where
  "main_subreddit_name a =
     (if given (arg_subreddit a) then the (arg_subreddit a)
      else if given (fst (resolve_paths a)) then subreddit_of_path (the (fst (resolve_paths a)))
      else if given (snd (resolve_paths a)) then subreddit_of_path (the (snd (resolve_paths a)))
      else [])"

text \<open>
  Lines 556-583: one archive is processed when its path was given and the file exists;
  unpacking the result \<open>None\<close> of \<open>process_subreddit_file\<close> would raise \<open>TypeError\<close>.
\<close>

definition process_archive ::
  "env \<Rightarrow> string option \<Rightarrow> string \<Rightarrow> int \<Rightarrow> int \<Rightarrow> bool \<Rightarrow> state
     \<Rightarrow> (error + (chunk_result list \<times> file_coverage) option) \<times> state" where
  "process_archive env path output_dir chunk_size max_chunks is_submission s =
     (if given path \<and> archives env (the path) \<noteq> None then
        (case process_subreddit_file env (the path) output_dir chunk_size max_chunks
                is_submission s of
           (Inl e, s') \<Rightarrow> (Inl e, s')
         | (Inr None, s') \<Rightarrow> (Inl TypeError, s')
         | (Inr (Some rc), s') \<Rightarrow> (Inr (Some rc), s'))
      else (Inr None, s))"

text \<open>Lines 603-606: the paths \<open>main\<close> reads the chunk analyses from.\<close>

definition analysis_paths :: "string \<Rightarrow> string \<Rightarrow> string \<Rightarrow> nat \<Rightarrow> string list" where
  "analysis_paths output_dir kind subreddit_name n =
     map (\<lambda>i. path_join (path_join output_dir kind)
                (subreddit_name @ ''_chunk_'' @ str_nat (i + 1) @ ''_analysis.md''))
       [0..<n]"

text \<open>Lines 609-613; opening a path that exists and is not a file raises.\<close>

fun read_existing :: "state \<Rightarrow> string list \<Rightarrow> string list \<Rightarrow> error + string list" where
  "read_existing s [] all_analyses = Inr all_analyses"
| "read_existing s (p # ps) all_analyses =
     (if path_exists s p then
        (case files s p of
           None \<Rightarrow> Inl OSError
         | Some text \<Rightarrow> read_existing s ps (all_analyses @ [text]))
      else read_existing s ps all_analyses)"

text \<open>
  The f-string \<open>combined_prompt\<close> of lines 617-635; \<open>all_analyses\<close> is a list of
  strings, which the f-string renders as Python prints a list.
\<close>

definition combined_prompt :: "pylib \<Rightarrow> string \<Rightarrow> string list \<Rightarrow> string" where
  "combined_prompt lib subreddit_name all_analyses =
     nl @ join nl
       [''# Combined Analysis of r/'' @ subreddit_name,
        [],
        ''You have been provided with separate analyses of submissions ''
          @ ''and comments from the subreddit r/'' @ subreddit_name @ ''.'',
        ''Your task is to synthesize these analyses into a coherent ''
          @ ''summary that provides a complete picture of the community.'',
        [],
        ''Please provide a comprehensive summary that brings together the ''
          @ ''insights from all analyses, highlighting:'',
        [],
        ''1. The primary characteristics and purpose of this subreddit community'',
        ''2. The most significant pain points and problems faced by ''
          @ ''community members'',
        ''3. The most common questions and information gaps'',
        ''4. The most popular solutions, products, or services discussed'',
        ''5. The least popular solutions, products, or services discussed'',
        ''6. Overall themes, patterns, and dynamics in the community'',
        [],
        ''## Individual Analyses'',
        [],
        py_str lib (JArr (map JStr all_analyses))]
     @ nl"

definition overall_json :: "overall_coverage \<Rightarrow> json" where
  "overall_json c =
     JObj [(''total_items_estimate'', JInt (int (overall_total_items_estimate c))),
           (''items_processed'', JInt (int (overall_items_processed c))),
           (''coverage_percentage'',
              if overall_total_items_estimate c > 0 then JFloat (overall_coverage_percentage c)
              else JInt 0)]"

definition final_summary ::
  "env \<Rightarrow> string \<Rightarrow> chunk_result list \<Rightarrow> chunk_result list \<Rightarrow> overall_coverage \<Rightarrow> file_coverage
     \<Rightarrow> file_coverage \<Rightarrow> string \<Rightarrow> json" where
  "final_summary env subreddit_name submission_results comment_results overall
     submission_coverage comment_coverage combined_analysis =
     JObj [(''subreddit'', JStr subreddit_name),
           (''analysis_date'', JStr (today env)),
           (''submissions_analyzed'',
              JInt (int (sum_list (map (\<lambda>r. post_count (chunk_metadata r)) submission_results)))),
           (''comments_analyzed'',
              JInt (int (sum_list (map (\<lambda>r. post_count (chunk_metadata r)) comment_results)))),
           (''coverage_data'',
              JObj [(''overall'', overall_json overall),
                    (''submissions'', coverage_json submission_coverage),
                    (''comments'', coverage_json comment_coverage)]),
           (''combined_analysis'', JStr combined_analysis)]"

text \<open>
  Lines 585-670: the overall coverage and the combined analysis, from what the two
  archives returned (\<open>None\<close> for an archive that was not processed).
\<close>

definition combine ::
  "env \<Rightarrow> string \<Rightarrow> string \<Rightarrow> (chunk_result list \<times> file_coverage) option
     \<Rightarrow> (chunk_result list \<times> file_coverage) option \<Rightarrow> state \<Rightarrow> (error + unit) \<times> state" where
  "combine env subreddit_name output_dir sub com s =
     (case (sub, com) of
        (Some (submission_results, submission_coverage),
         Some (comment_results, comment_coverage)) \<Rightarrow>
          if submission_results \<noteq> [] \<and> comment_results \<noteq> [] then
            let overall = make_overall_coverage (env_lib env) (Some submission_coverage)
                            (Some comment_coverage);
                combined_dir = path_join output_dir ''combined'';
                s1 = ensure_dir combined_dir s;
                paths = analysis_paths output_dir ''submissions'' subreddit_name
                          (length submission_results)
                        @ analysis_paths output_dir ''comments'' subreddit_name
                            (length comment_results)
            in case read_existing s1 paths [] of
                 Inl e \<Rightarrow> (Inl e, s1)
               | Inr all_analyses \<Rightarrow>
                   if all_analyses = [] then (Inr (), s1)
                   else
                     let cp = combined_prompt (env_lib env) subreddit_name all_analyses;
                         s2 = write_file
                                (path_join combined_dir (subreddit_name @ ''_combined_prompt.txt''))
                                cp s1
                     in case analyze_with_openai env cp ''gpt-4o'' 4000 s2 of
                          (Inl e, s3) \<Rightarrow> (Inl e, s3)
                        | (Inr ca, s3) \<Rightarrow>
                            if usable ca then
                              let s4 = write_file
                                         (path_join combined_dir
                                            (subreddit_name @ ''_combined_analysis.md''))
                                         (the ca) s3
                              in (Inr (),
                                  write_file (summary_path output_dir subreddit_name)
                                    (json_dumps (env_lib env)
                                       (final_summary env subreddit_name submission_results
                                          comment_results overall submission_coverage
                                          comment_coverage (the ca)))
                                    s4)
                            else (Inr (), s3)
          else (Inr (), s)
      | _ \<Rightarrow> (Inr (), s))"

text \<open>\<open>main\<close>, lines 510-672; \<open>parser.error\<close> ends the run with \<open>SystemExit\<close>.\<close>

definition main :: "env \<Rightarrow> args \<Rightarrow> state \<Rightarrow> (error + unit) \<times> state" where
  "main env a s =
     (if \<not> given (arg_submissions a) \<and> \<not> given (arg_comments a) \<and> \<not> given (arg_subreddit a)
      then (Inl SystemExit, s)
      else
        let subreddit_name = main_subreddit_name a;
            output_dir = path_join (arg_output_dir a) subreddit_name
        in case process_archive env (fst (resolve_paths a))
                  (path_join output_dir ''submissions'') (arg_chunk_size a) (arg_max_chunks a)
                  True s of
             (Inl e, s1) \<Rightarrow> (Inl e, s1)
           | (Inr sub, s1) \<Rightarrow>
               (case process_archive env (snd (resolve_paths a))
                       (path_join output_dir ''comments'') (arg_chunk_size a)
                       (arg_max_chunks a) False s1 of
                  (Inl e, s2) \<Rightarrow> (Inl e, s2)
                | (Inr com, s2) \<Rightarrow> combine env subreddit_name output_dir sub com s2))"




text \<open>
  Inputs of example runs: an archive of one record without fields, found under two
  paths; an environment without a key and one with a key; the state before a run; three
  command lines.
\<close>

definition python_archive :: archive where
  "python_archive = \<lparr>file_size = 1000, records = [(Map.empty, [], 1000)], read_error = None\<rparr>"

definition no_key_env :: env where
  "no_key_env =
     \<lparr>env_lib = ref_lib, api_key = None,
      archives = [''/data/python_submissions.zst'' \<mapsto> python_archive,
                  ''/backup/python_2024.zst'' \<mapsto> python_archive],
      llm = (\<lambda>n req. Content ''Users ask about packaging.''),
      today = ''2025-03-01''\<rparr>"

definition key_env :: env where
  "key_env = no_key_env\<lparr>api_key := Some ''sk-test''\<rparr>"

definition empty_state :: state where
  "empty_state = \<lparr>dirs = {}, files = Map.empty, calls = []\<rparr>"




text \<open>The metadata and the rendering of a chunk that holds one post without fields.\<close>

definition bare_post_metadata :: metadata where
  "bare_post_metadata =
     \<lparr>post_count = 1, earliest = Some ''1970-01-01'', latest = Some ''1970-01-01'',
      authors = [], avg_score = 0, total_score = 0, unique_authors = 0\<rparr>"

definition bare_post_content :: string where
  "bare_post_content =
     ''POST [Score: 0, Comments: 0, Date: 1970-01-01]'' @ nl @ ''TITLE: No Title'' @ nl"

section \<open>Properties of the Chunker\<close>

lemma chunk_list_Nil: "chunk_list [] s = []"
  by (simp add: chunk_list.simps)

lemma chunk_list_step:
  "0 < s \<Longrightarrow> xs \<noteq> [] \<Longrightarrow>
   chunk_list xs s = take (nat s) xs # chunk_list (drop (nat s) xs) s"
  by (subst chunk_list.simps) simp

lemma concat_chunk_list: "0 < s \<Longrightarrow> concat (chunk_list xs s) = xs"
proof (induction xs s rule: chunk_list.induct)
  case (1 items chunk_size)
  show ?case
  proof (cases "items = []")
    case True
    then show ?thesis by (simp add: chunk_list_Nil)
  next
    case False
    with 1 show ?thesis by (simp add: chunk_list_step)
  qed
qed

lemma ceil_div_step:
  fixes n k :: nat
  assumes "0 < k" "0 < n"
  shows "Suc ((n - k + k - 1) div k) = (n + k - 1) div k"
proof (cases "k \<le> n")
  case True
  define r where "r = n - 1"
  have n: "n = Suc r" using assms(2) by (simp add: r_def)
  have e1: "(r + k) div k = Suc (r div k)" using assms(1) by simp
  have e2: "n - k + k - 1 = r" using True by (simp add: r_def)
  have e3: "n + k - 1 = r + k" by (simp add: n)
  show ?thesis unfolding e2 e3 e1 ..
next
  case False
  then have a: "n - k + k - 1 = k - 1" by simp
  have "k \<le> n + k - 1" "n + k - 1 < 2 * k" using False assms by auto
  then have b: "(n + k - 1) div k = 1"
    by (intro div_nat_eqI) auto
  have c: "(k - 1) div k = 0" using assms(1) by simp
  show ?thesis unfolding a b c by simp
qed

lemma length_chunk_list:
  "0 < s \<Longrightarrow> length (chunk_list xs s) = (length xs + nat s - 1) div nat s"
proof (induction xs s rule: chunk_list.induct)
  case (1 items chunk_size)
  show ?case
  proof (cases "items = []")
    case True
    with 1(2) show ?thesis by (simp add: chunk_list_Nil)
  next
    case False
    define k where "k = nat chunk_size"
    have k: "0 < k" using 1(2) by (simp add: k_def)
    have n: "0 < length items" using False by simp
    have ih: "length (chunk_list (drop k items) chunk_size) = (length items - k + k - 1) div k"
      using 1 False by (simp add: k_def)
    have "length (chunk_list items chunk_size) =
          Suc (length (chunk_list (drop k items) chunk_size))"
      using False 1(2) by (simp add: chunk_list_step k_def)
    also have "\<dots> = (length items + k - 1) div k"
      unfolding ih by (rule ceil_div_step [OF k n])
    finally show ?thesis by (simp add: k_def)
  qed
qed

lemma nth_chunk_list:
  "0 < s \<Longrightarrow> i < length (chunk_list xs s) \<Longrightarrow>
   chunk_list xs s ! i = take (nat s) (drop (i * nat s) xs)"
proof (induction xs s arbitrary: i rule: chunk_list.induct)
  case (1 items chunk_size)
  show ?case
  proof (cases "items = []")
    case True
    with 1(3) show ?thesis by (simp add: chunk_list_Nil)
  next
    case False
    show ?thesis
    proof (cases i)
      case 0
      then show ?thesis using False 1(2) by (simp add: chunk_list_step)
    next
      case (Suc j)
      have "j < length (chunk_list (drop (nat chunk_size) items) chunk_size)"
        using 1(3) False 1(2) Suc by (simp add: chunk_list_step)
      then have "chunk_list (drop (nat chunk_size) items) chunk_size ! j =
                 take (nat chunk_size) (drop (j * nat chunk_size) (drop (nat chunk_size) items))"
        using 1(1) False 1(2) by simp
      then show ?thesis
        using False 1(2) Suc by (simp add: chunk_list_step add.commute)
    qed
  qed
qed

lemma concat_take_chunk_list:
  "0 < s \<Longrightarrow> concat (take m (chunk_list xs s)) = take (m * nat s) xs"
proof (induction xs s arbitrary: m rule: chunk_list.induct)
  case (1 items chunk_size)
  show ?case
  proof (cases "items = []")
    case True
    then show ?thesis by (simp add: chunk_list_Nil)
  next
    case False
    show ?thesis
    proof (cases m)
      case 0
      then show ?thesis by simp
    next
      case (Suc j)
      have ih: "concat (take j (chunk_list (drop (nat chunk_size) items) chunk_size)) =
                take (j * nat chunk_size) (drop (nat chunk_size) items)"
        using 1(1) False 1(2) by simp
      have "take (nat chunk_size) items @ take (j * nat chunk_size) (drop (nat chunk_size) items)
            = take (nat chunk_size + j * nat chunk_size) items"
        by (simp add: take_add)
      then show ?thesis
        using False 1(2) Suc ih by (simp add: chunk_list_step)
    qed
  qed
qed

lemma ceil_nat_div:
  fixes n :: nat and s :: int
  assumes "0 < s"
  shows "\<lceil>real n / real_of_int s\<rceil> = int ((n + nat s - 1) div nat s)"
proof -
  define k where "k = nat s"
  define q where "q = (n + k - 1) div k"
  have k: "0 < k" using assms by (simp add: k_def)
  have sk: "real_of_int s = real k" using assms by (simp add: k_def)
  have lo: "q * k \<le> n + k - 1" unfolding q_def by simp
  have "(n + k - 1) mod k < k" using k by simp
  then have hi: "n + k - 1 < q * k + k"
    unfolding q_def using div_mult_mod_eq [of "n + k - 1" k] by linarith
  have n_le: "n \<le> q * k" using hi k by linarith
  have lt: "q * k < n + k" using lo k by linarith
  have r1: "real n / real k \<le> real q"
    using n_le k by (simp add: pos_divide_le_eq flip: of_nat_mult)
  have "real q * real k < real n + real k"
    using lt by (simp flip: of_nat_mult of_nat_add)
  then have "(real q - 1) * real k < real n" by (simp add: algebra_simps)
  then have r2: "real q - 1 < real n / real k"
    using k by (simp add: pos_less_divide_eq)
  have "\<lceil>real n / real k\<rceil> = int q"
    by (rule ceiling_unique) (use r1 r2 in simp_all)
  then show ?thesis by (simp add: sk q_def k_def)
qed

text \<open>
  Claim C4, as amended. For a buffer \<open>xs\<close> of \<open>n\<close> items, \<open>chunk_size = s > 0\<close> and
  \<open>max_chunks = m \<ge> 0\<close>, the Chunker produces \<open>min(ceil(n/s), m)\<close> batches; batch \<open>i\<close>
  is the contiguous slice of \<open>s\<close> items starting at position \<open>i * s\<close>, every batch is
  non-empty and has at most \<open>s\<close> items, every batch but the last has exactly \<open>s\<close>, and
  the batches concatenated in order are the first \<open>min(n, s * m)\<close> items. The result is
  a function of the buffer and the two parameters, so equal inputs give equal boundaries.
\<close>

theorem chunker_batches:
  "0 < s \<Longrightarrow> 0 \<le> m \<Longrightarrow>
   int (length (chunks_to_process xs s m)) = min \<lceil>real (length xs) / real_of_int s\<rceil> m \<and>
   (\<forall>i < length (chunks_to_process xs s m).
      chunks_to_process xs s m ! i = take (nat s) (drop (i * nat s) xs) \<and>
      0 < length (chunks_to_process xs s m ! i) \<and>
      length (chunks_to_process xs s m ! i) \<le> nat s \<and>
      (Suc i < length (chunks_to_process xs s m) \<longrightarrow>
         length (chunks_to_process xs s m ! i) = nat s)) \<and>
   concat (chunks_to_process xs s m) = take (nat (min (int (length xs)) (s * m))) xs"
proof -
  assume s: "0 < s" and m: "0 \<le> m"
  define k where "k = nat s"
  define c where "c = chunk_list xs s"
  have k: "0 < k" using s by (simp add: k_def)
  have ctp: "chunks_to_process xs s m = take (nat m) c"
    using m by (simp add: chunks_to_process_def slice_to_def c_def)
  have lenc: "length c = (length xs + k - 1) div k"
    unfolding c_def k_def by (rule length_chunk_list [OF s])
  have len: "int (length (take (nat m) c)) = min \<lceil>real (length xs) / real_of_int s\<rceil> m"
  proof -
    have "int (length (take (nat m) c)) = min (int (length c)) m"
      using m by (simp add: min_def) linarith
    then show ?thesis by (simp add: ceil_nat_div [OF s] lenc k_def)
  qed
  have nth: "take (nat m) c ! i = take k (drop (i * k) xs)" if "i < length (take (nat m) c)" for i
    using that nth_chunk_list [OF s, of i xs] by (simp add: c_def k_def)
  have bound: "i * k < length xs" if "i < length c" for i
  proof -
    have "Suc i \<le> (length xs + k - 1) div k" using that lenc by simp
    then have "Suc i * k \<le> (length xs + k - 1) div k * k" by (rule mult_le_mono1)
    also have "\<dots> \<le> length xs + k - 1" by simp
    finally show ?thesis using k by simp
  qed
  have full: "(Suc i) * k \<le> length xs" if "Suc i < length c" for i
    using bound [OF that] by simp
  have pos: "0 < length (take (nat m) c ! i)" if "i < length (take (nat m) c)" for i
    using that bound [of i] k by (simp add: nth [OF that])
  have le: "length (take (nat m) c ! i) \<le> k" if "i < length (take (nat m) c)" for i
    by (simp add: nth [OF that])
  have ex: "length (take (nat m) c ! i) = k"
    if "i < length (take (nat m) c)" "Suc i < length (take (nat m) c)" for i
  proof -
    have "Suc i < length c" using that(2) by simp
    from full [OF this] show ?thesis by (simp add: nth [OF that(1)])
  qed
  have "concat (take (nat m) c) = take (nat m * k) xs"
    unfolding c_def k_def by (rule concat_take_chunk_list [OF s])
  also have "\<dots> = take (nat (min (int (length xs)) (s * m))) xs"
  proof -
    define j where "j = nat m * k"
    have sm: "s * m = int j"
      using s m by (simp add: j_def k_def mult.commute)
    have "min (int (length xs)) (int j) = int (min (length xs) j)"
      by (simp add: min_def)
    then have "nat (min (int (length xs)) (s * m)) = min (length xs) j"
      unfolding sm by simp
    then show ?thesis by (simp add: min_def j_def)
  qed
  finally have cc: "concat (take (nat m) c) = take (nat (min (int (length xs)) (s * m))) xs" .
  show ?thesis
    unfolding ctp using len nth pos le ex cc by (simp add: k_def)
qed

theorem chunker_batches_witness:
  "(0::int) < 2 \<and> (0::int) \<le> 2 \<and>
   length (chunks_to_process [1, 2, 3, 4, 5 :: nat] 2 2) = 2 \<and>
   chunks_to_process [1, 2, 3, 4, 5 :: nat] 2 2 ! 1 = [3, 4] \<and>
   concat (chunks_to_process [1, 2, 3, 4, 5 :: nat] 2 2) = [1, 2, 3, 4]"
proof -
  have s: "(0::int) < 2" and m: "(0::int) \<le> 2" by simp_all
  have c: "chunks_to_process [1, 2, 3, 4, 5 :: nat] 2 2 = [[1, 2], [3, 4]]"
    by (simp add: chunks_to_process_def slice_to_def chunk_list.simps)
  from chunker_batches [OF s m, of "[1, 2, 3, 4, 5 :: nat]"]
  show ?thesis by (simp add: c)
qed

text \<open>
  Claim C4 as stated fails for a negative \<open>max_chunks\<close>: \<open>chunks[:-1]\<close> drops the last
  batch, so a buffer of one item gives no batch at all, not \<open>min(1, -1)\<close> batches.
\<close>

theorem chunker_negative_max_chunks:
  "int (length (chunks_to_process [0::nat] 1 (- 1)))
     \<noteq> min \<lceil>real (length [0::nat]) / real_of_int 1\<rceil> (- 1)"
  by (simp add: chunks_to_process_def slice_to_def chunk_list.simps)

section \<open>Properties of the Metadata Extractor\<close>

lemma date_step_authors: "date_step lib item acc = Inr acc' \<Longrightarrow> acc_authors acc' = acc_authors acc"
  by (auto simp: date_step_def split: sum.splits if_splits)

lemma score_step_authors: "score_step lib item acc = Inr acc' \<Longrightarrow> acc_authors acc' = acc_authors acc"
  by (auto simp: score_step_def split: option.splits sum.splits)

lemma author_step_authors:
  "author_step item acc = Inr acc' \<Longrightarrow> \<forall>a \<in> set (acc_authors acc). \<not> is_excluded a \<Longrightarrow>
   \<forall>a \<in> set (acc_authors acc'). \<not> is_excluded a"
  by (auto simp: author_step_def set_add_def split: option.splits sum.splits if_splits)

lemma metadata_step_authors:
  "metadata_step lib item acc = Inr acc' \<Longrightarrow> \<forall>a \<in> set (acc_authors acc). \<not> is_excluded a \<Longrightarrow>
   \<forall>a \<in> set (acc_authors acc'). \<not> is_excluded a"
  unfolding metadata_step_def
  by (auto split: sum.splits dest!: date_step_authors score_step_authors dest: author_step_authors)

lemma metadata_loop_authors:
  "metadata_loop lib items acc = Inr acc' \<Longrightarrow> \<forall>a \<in> set (acc_authors acc). \<not> is_excluded a \<Longrightarrow>
   \<forall>a \<in> set (acc_authors acc'). \<not> is_excluded a"
proof (induction items arbitrary: acc)
  case Nil
  then show ?case by simp
next
  case (Cons item rest)
  from Cons.prems(1) obtain acc1 where
    s: "metadata_step lib item acc = Inr acc1" and l: "metadata_loop lib rest acc1 = Inr acc'"
    by (auto split: sum.splits)
  from metadata_step_authors [OF s Cons.prems(2)] Cons.IH [OF l] show ?case by blast
qed

text \<open>
  Claim C9. Whenever \<open>extract_metadata\<close> returns the metadata of a chunk, the author list
  holds neither \<open>[deleted]\<close> nor \<open>AutoModerator\<close>, and \<open>unique_authors\<close> is the length
  of that list.
\<close>

theorem extract_metadata_authors:
  "extract_metadata lib chunk = Inr m \<Longrightarrow>
   JStr ''[deleted]'' \<notin> set (authors m) \<and>
   JStr ''AutoModerator'' \<notin> set (authors m) \<and>
   unique_authors m = length (authors m)"
proof -
  assume a: "extract_metadata lib chunk = Inr m"
  then obtain acc where l: "metadata_loop lib chunk md_init = Inr acc"
    and au: "authors m = acc_authors acc" and u: "unique_authors m = length (acc_authors acc)"
    by (auto simp: extract_metadata_def split: sum.splits)
  have "\<forall>a \<in> set (acc_authors md_init). \<not> is_excluded a" by (simp add: md_init_def)
  from metadata_loop_authors [OF l this] have "\<forall>a \<in> set (authors m). \<not> is_excluded a"
    by (simp add: au)
  then show ?thesis using au u by (auto simp: is_excluded_def)
qed


lemma range_timestamp_created_time:
  "range_timestamp lib item = (case created_time lib item of Inr t \<Rightarrow> Some t | Inl _ \<Rightarrow> None)"
  by (simp add: range_timestamp_def created_time_def dict_get_def utcfromtimestamp_def py_int_def
      split: option.splits sum.splits)

lemma lowest_snoc:
  "lowest (pre @ [t]) =
     (case lowest pre of None \<Rightarrow> Some t | Some e \<Rightarrow> if t < e then Some t else Some e)"
proof (cases "pre = []")
  case True
  then show ?thesis by (simp add: lowest_def)
next
  case False
  define e where "e = Min (set pre)"
  have "Min (insert t (set pre)) = min t (Min (set pre))"
    by (rule Min_insert) (use False in simp_all)
  then have l1: "lowest (pre @ [t]) = Some (min t e)"
    by (simp add: lowest_def e_def)
  have l2: "lowest pre = Some e" using False by (simp add: lowest_def e_def)
  show ?thesis unfolding l1 l2 by (auto simp: min_def)
qed

lemma highest_snoc:
  "highest (pre @ [t]) =
     (case highest pre of None \<Rightarrow> Some t | Some e \<Rightarrow> if t > e then Some t else Some e)"
proof (cases "pre = []")
  case True
  then show ?thesis by (simp add: highest_def)
next
  case False
  define e where "e = Max (set pre)"
  have "Max (insert t (set pre)) = max t (Max (set pre))"
    by (rule Max_insert) (use False in simp_all)
  then have l1: "highest (pre @ [t]) = Some (max t e)"
    by (simp add: highest_def e_def)
  have l2: "highest pre = Some e" using False by (simp add: highest_def e_def)
  show ?thesis unfolding l1 l2 by (auto simp: max_def)
qed


lemma date_step_range:
  assumes "date_step lib item acc = Inr acc'"
    and "acc_earliest acc = lowest pre" and "acc_latest acc = highest pre"
  shows "acc_earliest acc' = lowest (pre @ contrib lib item) \<and>
         acc_latest acc' = highest (pre @ contrib lib item)"
proof (cases "created_time lib item")
  case (Inl e)
  then have "contrib lib item = []" by (simp add: contrib_def range_timestamp_created_time)
  moreover have "acc' = acc" using assms(1) Inl by (simp add: date_step_def split: if_splits)
  ultimately show ?thesis using assms by simp
next
  case (Inr t)
  then have c: "contrib lib item = [t]" by (simp add: contrib_def range_timestamp_created_time)
  show ?thesis
    using assms Inr unfolding c lowest_snoc highest_snoc
    by (auto simp: date_step_def split: option.splits)
qed

lemma author_step_range:
  "author_step item acc = Inr acc' \<Longrightarrow>
   acc_earliest acc' = acc_earliest acc \<and> acc_latest acc' = acc_latest acc"
  by (auto simp: author_step_def split: option.splits sum.splits if_splits)

lemma score_step_range:
  "score_step lib item acc = Inr acc' \<Longrightarrow>
   acc_earliest acc' = acc_earliest acc \<and> acc_latest acc' = acc_latest acc"
  by (auto simp: score_step_def split: option.splits sum.splits)

lemma metadata_step_range:
  assumes "metadata_step lib item acc = Inr acc'"
    and "acc_earliest acc = lowest pre" and "acc_latest acc = highest pre"
  shows "acc_earliest acc' = lowest (pre @ contrib lib item) \<and>
         acc_latest acc' = highest (pre @ contrib lib item)"
proof -
  from assms(1) obtain a1 a2 where
    d: "date_step lib item acc = Inr a1" and a: "author_step item a1 = Inr a2"
    and s: "score_step lib item a2 = Inr acc'"
    by (auto simp: metadata_step_def split: sum.splits)
  from date_step_range [OF d assms(2,3)] author_step_range [OF a] score_step_range [OF s]
  show ?thesis by simp
qed

lemma map_filter_Cons:
  "List.map_filter f (x # xs) = (case f x of None \<Rightarrow> [] | Some y \<Rightarrow> [y]) @ List.map_filter f xs"
  by (simp add: List.map_filter_def split: option.splits)

lemma metadata_loop_range:
  "metadata_loop lib items acc = Inr acc' \<Longrightarrow>
   acc_earliest acc = lowest pre \<Longrightarrow> acc_latest acc = highest pre \<Longrightarrow>
   acc_earliest acc' = lowest (pre @ List.map_filter (range_timestamp lib) items) \<and>
   acc_latest acc' = highest (pre @ List.map_filter (range_timestamp lib) items)"
proof (induction items arbitrary: acc pre)
  case Nil
  then show ?case by (simp add: List.map_filter_def)
next
  case (Cons item rest)
  from Cons.prems(1) obtain acc1 where
    s: "metadata_step lib item acc = Inr acc1" and l: "metadata_loop lib rest acc1 = Inr acc'"
    by (auto split: sum.splits)
  from metadata_step_range [OF s Cons.prems(2,3)]
  have "acc_earliest acc1 = lowest (pre @ contrib lib item)"
    and "acc_latest acc1 = highest (pre @ contrib lib item)" by simp_all
  from Cons.IH [OF l this] show ?case
    by (simp add: map_filter_Cons contrib_def split: option.splits)
qed

text \<open>
  Claim C5, as amended. The item count of the metadata is the length of the chunk, and the
  date range is the earliest and latest of the timestamps of \<open>range_timestamp\<close>: an item
  whose \<open>created_utc\<close> is present and does not convert brings none, an item without
  \<open>created_utc\<close> brings the timestamp 0, that is 1970-01-01.
\<close>

theorem extract_metadata_date_range:
  "extract_metadata lib chunk = Inr m \<Longrightarrow>
   post_count m = length chunk \<and>
   earliest m =
     map_option (strftime_ymd lib) (lowest (List.map_filter (range_timestamp lib) chunk)) \<and>
   latest m =
     map_option (strftime_ymd lib) (highest (List.map_filter (range_timestamp lib) chunk))"
proof -
  assume a: "extract_metadata lib chunk = Inr m"
  then obtain acc where l: "metadata_loop lib chunk md_init = Inr acc"
    and m: "post_count m = length chunk"
      "earliest m = map_option (strftime_ymd lib) (acc_earliest acc)"
      "latest m = map_option (strftime_ymd lib) (acc_latest acc)"
    by (auto simp: extract_metadata_def split: sum.splits)
  have "acc_earliest md_init = lowest []" "acc_latest md_init = highest []"
    by (simp_all add: md_init_def lowest_def highest_def)
  from metadata_loop_range [OF l this] m show ?thesis by simp
qed


lemma ref_int_eval:
  "int_of_str ref_lib ''abc'' = None"
  "int_of_str ref_lib ''172800'' = Some 172800"
  by (simp_all add: ref_lib_def ref_int_of_str_def strip_def is_space_def digit_val_def)

lemma ref_utc_eval:
  "utc_error ref_lib 0 = None"
  "utc_error ref_lib 86400 = None"
  "utc_error ref_lib 172800 = None"
  by (simp_all add: ref_lib_def ref_utc_error_def)

lemma ref_date_eval_0: "strftime_ymd ref_lib 0 = ''1970-01-01''"
  by code_simp

lemma ref_date_eval_1: "strftime_ymd ref_lib 86400 = ''1970-01-02''"
  by code_simp

lemma ref_date_eval_2: "strftime_ymd ref_lib 172800 = ''1970-01-03''"
  by code_simp

lemmas metadata_eval =
  extract_metadata_def metadata_step_def date_step_def author_step_def score_step_def
  created_time_def dict_get_def py_int_def utcfromtimestamp_def md_init_def is_excluded_def
  set_add_def hashable_def py_eq_def num_of_def
  ref_int_eval ref_utc_eval ref_date_eval_0 ref_date_eval_1 ref_date_eval_2

lemma example_chunk_metadata: "extract_metadata ref_lib example_chunk = Inr example_metadata"
  by (simp add: example_chunk_def example_metadata_def metadata_eval)

theorem extract_metadata_authors_witness:
  "extract_metadata ref_lib example_chunk = Inr example_metadata \<and>
   JStr ''[deleted]'' \<notin> set (authors example_metadata) \<and>
   JStr ''AutoModerator'' \<notin> set (authors example_metadata) \<and>
   unique_authors example_metadata = length (authors example_metadata)"
  using example_chunk_metadata extract_metadata_authors [OF example_chunk_metadata] by simp

theorem extract_metadata_date_range_witness:
  "extract_metadata ref_lib example_chunk = Inr example_metadata \<and>
   post_count example_metadata = length example_chunk \<and>
   earliest example_metadata =
     map_option (strftime_ymd ref_lib)
       (lowest (List.map_filter (range_timestamp ref_lib) example_chunk)) \<and>
   latest example_metadata =
     map_option (strftime_ymd ref_lib)
       (highest (List.map_filter (range_timestamp ref_lib) example_chunk))"
  using example_chunk_metadata extract_metadata_date_range [OF example_chunk_metadata] by simp

text \<open>
  Claim C5 as stated fails for a missing timestamp: a chunk of one record without
  \<open>created_utc\<close> gets the date range 1970-01-01 to 1970-01-01, not an empty one.
\<close>

theorem extract_metadata_missing_timestamp:
  "extract_metadata ref_lib [Map.empty] =
     Inr \<lparr>post_count = 1, earliest = Some ''1970-01-01'', latest = Some ''1970-01-01'',
          authors = [], avg_score = 0, total_score = 0, unique_authors = 0\<rparr>"
  by (simp add: metadata_eval)

section \<open>Properties of the coverage figures\<close>



section \<open>Properties of the Size Estimator\<close>







text \<open>
  Claim C8 at an archive whose pass raises at once: at 500 MiB the exception leaves the
  estimator, one byte below it the estimator falls back to \<open>file_size // 500\<close>.
\<close>

theorem estimate_read_failure_large_archive:
  "estimate_total_items \<lparr>file_size = 524288000, records = [], read_error = Some OSError\<rparr>
     = Inl OSError \<and>
   estimate_total_items \<lparr>file_size = 524287999, records = [], read_error = Some OSError\<rparr>
     = Inr 1048575"
  by (simp add: estimate_total_items_def is_exception_def bytes_per_item_def)

section \<open>Properties of the subreddit identifier\<close>




lemma path_eval:
  "basename ''/data/python'' = ''python''"
  "subreddit_of_path ''/data/python'' = ''python''"
  "subreddit_of_path ''/data/python_submissions.zst'' = ''python''"
  "subreddit_of_path ''/backup/python_2024.zst'' = ''python''"
  "subreddit_of_path ''/data/python_comments.zst'' = ''python''"
  "subreddit_of_path ''data/ask_science_submissions.zst'' = ''ask''"
  by (simp_all add: subreddit_of_path_def basename_def)



section \<open>Properties of a run without a credential\<close>

lemma analyze_no_key:
  "\<not> has_api_key env \<Longrightarrow> analyze_with_openai env prompt model mt s = (Inl ValueError, s)"
  by (simp add: analyze_with_openai_def)

lemma str_nat_1: "str_nat (Suc 0) = ''1''"
  by (simp add: str_nat.simps [of "Suc 0"])

lemma process_chunks_no_key:
  assumes "\<not> has_api_key env"
  shows "process_chunks env out name sub i chunks acc s =
     (case chunks of
        [] \<Rightarrow> (Inr acc, s)
      | chunk # rest \<Rightarrow>
          (case extract_metadata (env_lib env) chunk of
             Inl e \<Rightarrow> (Inl e, s)
           | Inr m \<Rightarrow>
               (case format_content_for_ai (env_lib env) chunk sub of
                  Inl e \<Rightarrow> (Inl e, s)
                | Inr c \<Rightarrow>
                    (Inl ValueError,
                     write_file
                       (path_join out (name @ ''_chunk_'' @ str_nat (i + 1) @ ''_prompt.txt''))
                       (prepare_ai_prompt name c m) s))))"
  by (cases chunks) (simp_all add: analyze_no_key [OF assms] Let_def split: sum.splits)

lemma chunk_stage_no_key:
  assumes "\<not> has_api_key env" and "chunk_stage env p out cs mc sub s = (r, s1)"
  shows "calls s1 = calls s \<and>
         (\<forall>res cov pct. r = Inr (Some (res, cov, pct)) \<longrightarrow> res = [] \<and> files s1 = files s) \<and>
         (files s1 = files s \<or>
          (r = Inl ValueError \<and>
           (\<exists>text. files s1 =
              (files s)(path_join out (subreddit_of_path p @ ''_chunk_1_prompt.txt'') \<mapsto> text))))"
  using assms(2)
  by (auto simp: chunk_stage_def process_chunks_no_key [OF assms(1)] Let_def ensure_dir_def
      write_file_def str_nat_1
      split: option.splits sum.splits prod.splits list.splits if_splits)

text \<open>
  Claim C1, as amended. Without a credential a run of \<open>process_subreddit_file\<close> sends no
  request, and it writes no file but, at most, the prompt of the first chunk: the key is
  checked inside \<open>analyze_with_openai\<close>, so the run reads the archive, writes that prompt
  and then ends with \<open>ValueError\<close>. A run that returns has analysed no chunk and written
  no file.
\<close>

theorem missing_credential:
  assumes "\<not> has_api_key env"
    and "process_subreddit_file env p out cs mc sub s = (r, s')"
  shows "calls s' = calls s \<and>
         (\<forall>res cov. r = Inr (Some (res, cov)) \<longrightarrow> res = [] \<and> files s' = files s) \<and>
         (files s' = files s \<or>
          (r = Inl ValueError \<and>
           (\<exists>text. files s' =
              (files s)(path_join out (subreddit_of_path p @ ''_chunk_1_prompt.txt'') \<mapsto> text))))"
proof -
  obtain r1 s1 where c: "chunk_stage env p out cs mc sub s = (r1, s1)"
    by (cases "chunk_stage env p out cs mc sub s") auto
  note k = chunk_stage_no_key [OF assms(1) c]
  show ?thesis
  proof (cases r1)
    case (Inl e)
    then have "r = Inl e" "s' = s1" using assms(2) c by (simp_all add: process_subreddit_file_def)
    then show ?thesis using k Inl by simp
  next
    case (Inr v)
    show ?thesis
    proof (cases v)
      case None
      then have "r = Inr None" "s' = s1"
        using assms(2) c Inr by (simp_all add: process_subreddit_file_def)
      then show ?thesis using k Inr by auto
    next
      case (Some t)
      obtain res cov pct where t: "t = (res, cov, pct)" by (cases t) auto
      have res: "res = []" "files s1 = files s" using k Inr Some t by auto
      have "r = Inr (Some ([], cov))" "s' = s1"
        using assms(2) c Inr Some t res
        by (simp_all add: process_subreddit_file_def summarize_def)
      then show ?thesis using k res by auto
    qed
  qed
qed

lemma bare_post_metadata_eval: "extract_metadata ref_lib [Map.empty] = Inr bare_post_metadata"
  by (simp add: metadata_eval bare_post_metadata_def)

lemma ref_py_str_eval:
  "py_str ref_lib (JInt 0) = ''0''"
  "py_str ref_lib (JStr ''No Title'') = ''No Title''"
  by (simp_all add: ref_lib_def ref_py_str_def str_int_def str_nat.simps [of 0])

lemma bare_post_content_eval:
  "format_content_for_ai ref_lib [Map.empty] True = Inr bare_post_content"
  by (simp add: format_content_for_ai_def format_submission_def format_date_def created_time_def
      dict_get_def py_int_def utcfromtimestamp_def ref_utc_eval ref_date_eval_0 ref_py_str_eval
      is_text_def truthy_def bare_post_content_def)

lemma chunk_list_single: "0 < n \<Longrightarrow> chunk_list [x] n = [[x]]"
  by (simp add: chunk_list_step chunk_list_Nil)

lemma no_key_env_key: "\<not> has_api_key no_key_env"
  by (simp add: has_api_key_def no_key_env_def)

lemma no_key_run:
  "process_subreddit_file no_key_env ''/data/python_submissions.zst'' ''out'' 100 5 True
     empty_state =
   (Inl ValueError,
    \<lparr>dirs = {''out''},
     files = [''out/python_chunk_1_prompt.txt'' \<mapsto>
                prepare_ai_prompt ''python'' bare_post_content bare_post_metadata],
     calls = []\<rparr>)"
proof -
  have a: "archives no_key_env ''/data/python_submissions.zst'' = Some python_archive"
    by (simp add: no_key_env_def)
  have l: "env_lib no_key_env = ref_lib" by (simp add: no_key_env_def)
  have e: "estimate_total_items python_archive = Inr 1"
    by (simp add: estimate_total_items_def python_archive_def)
  have i: "read_items python_archive 100 5 = Inr ([Map.empty], 1)"
    by (simp add: read_items_def python_archive_def)
  have c: "chunks_to_process [Map.empty :: item] 100 5 = [[Map.empty]]"
    by (simp add: chunks_to_process_def slice_to_def chunk_list_single)
  have "chunk_stage no_key_env ''/data/python_submissions.zst'' ''out'' 100 5 True empty_state =
    (Inl ValueError,
     \<lparr>dirs = {''out''},
      files = [''out/python_chunk_1_prompt.txt'' \<mapsto>
                 prepare_ai_prompt ''python'' bare_post_content bare_post_metadata],
      calls = []\<rparr>)"
    by (simp add: chunk_stage_def a l e i c path_eval process_chunks_no_key [OF no_key_env_key]
        bare_post_metadata_eval bare_post_content_eval ensure_dir_def path_exists_def
        empty_state_def write_file_def path_join_def str_nat_1)
  then show ?thesis by (simp add: process_subreddit_file_def)
qed

theorem missing_credential_witness:
  "\<not> has_api_key no_key_env \<and>
   process_subreddit_file no_key_env ''/data/python_submissions.zst'' ''out'' 100 5 True
     empty_state =
   (Inl ValueError,
    \<lparr>dirs = {''out''},
     files = [''out/python_chunk_1_prompt.txt'' \<mapsto>
                prepare_ai_prompt ''python'' bare_post_content bare_post_metadata],
     calls = []\<rparr>) \<and>
   calls \<lparr>dirs = {''out''},
     files = [''out/python_chunk_1_prompt.txt'' \<mapsto>
                prepare_ai_prompt ''python'' bare_post_content bare_post_metadata],
     calls = []\<rparr> = calls empty_state"
  using no_key_env_key no_key_run
    missing_credential [OF no_key_env_key no_key_run, THEN conjunct1]
  by (intro conjI)

text \<open>
  Claim C1 as stated fails on an archive of one post: without a credential the run ends
  with \<open>ValueError\<close> after it has made the output directory and written the prompt of
  chunk 1 into it.
\<close>

theorem missing_credential_prompt_written:
  "fst (process_subreddit_file no_key_env ''/data/python_submissions.zst'' ''out'' 100 5 True
          empty_state) = Inl ValueError \<and>
   files (snd (process_subreddit_file no_key_env ''/data/python_submissions.zst'' ''out'' 100 5
                 True empty_state)) ''out/python_chunk_1_prompt.txt''
     = Some (prepare_ai_prompt ''python'' bare_post_content bare_post_metadata) \<and>
   dirs (snd (process_subreddit_file no_key_env ''/data/python_submissions.zst'' ''out'' 100 5
                True empty_state)) = {''out''}"
  by (simp add: no_key_run)

end
